theory Spec2Isabelle
  imports Complex_Main "HOL-Library.Log_Nat" "HOL-Library.Word"
begin

section \<open>Values exchanged with the caller and with the libraries\<close>

text \<open>
  The server reads one JSON document per line and prints one JSON document per
  response.  A parsed document is a value of \<open>json\<close>; Python's \<open>None\<close> is
  \<open>JNull\<close>, a \<open>dict\<close> is an association list in insertion order.  Floating-point
  numbers that are only passed through (durations, probabilities) are rationals.
\<close>

datatype json =
    JNull
  | JBool bool
  | JInt int
  | JFloat rat
  | JStr string
  | JArr "json list"
  | JObj "(string \<times> json) list"

text \<open>\<open>request.get(key, default)\<close> on a dict.\<close>

definition dict_get :: "(string \<times> json) list \<Rightarrow> string \<Rightarrow> json \<Rightarrow> json" where
  "dict_get d k dflt = (case map_of d k of None \<Rightarrow> dflt | Some v \<Rightarrow> v)"

text \<open>The uniform failure payload \<open>{"success": False, "error": msg}\<close>.\<close>

definition failure :: "string \<Rightarrow> json" where
  "failure msg = JObj [(''success'', JBool False), (''error'', JStr msg)]"

text \<open>
  Exceptions that leave a function of the server.  \<open>ValueError\<close> and
  \<open>ZeroDivisionError\<close> arise inside the audio loader, \<open>AttributeError\<close> when
  \<open>.get\<close> is called on a parsed value that is not a dict, \<open>Raised\<close> carries the
  message \<open>str(e)\<close> of an exception raised by a library.
\<close>

datatype exn =
    ValueError string
  | ZeroDivisionError
  | AttributeError
  | Raised string

text \<open>The header fields and the frames read from an opened WAV container.\<close>

record wav =
  framerate :: nat
  nchannels :: nat
  sampwidth :: nat
  nframes :: nat
  raw_data :: "8 word list"

text \<open>What \<open>_load_audio\<close> hands to the engine: a sample buffer or the path itself.\<close>

datatype audio_data = Buffer "rat list" | Path json

text \<open>Outcome of \<open>import torch; torch.cuda.is_available()\<close>.\<close>

datatype probe = Cuda_available bool | Import_error | Probe_raised string

text \<open>What the engine returns: the segment texts in order, and the language info.\<close>

record transcription =
  segment_texts :: "string list"
  info_language :: string
  info_language_probability :: rat

text \<open>
  Everything outside the script: the JSON parser, the inference library, the file
  system, the GPU probe and the clock.  Calls that touch the outside world take the
  world \<open>'w\<close> and return the world after the call; \<open>'m\<close> is the type of model
  handles.  An \<open>Inl\<close> result is a raised exception, given by its message.
\<close>

record ('m, 'w) env =
  json_loads :: "string \<Rightarrow> string + json"
  py_repr :: "json \<Rightarrow> string"
  torch_probe :: "'w \<Rightarrow> probe \<times> 'w"
  WhisperModel :: "'w \<Rightarrow> json \<Rightarrow> json \<Rightarrow> json \<Rightarrow> (string + 'm) \<times> 'w"
  fs_exists :: "'w \<Rightarrow> string \<Rightarrow> bool \<times> 'w"
  stat_other :: "'w \<Rightarrow> json \<Rightarrow> (string + bool) \<times> 'w"
  wave_open :: "'w \<Rightarrow> json \<Rightarrow> (string + wav) \<times> 'w"
  model_transcribe :: "'w \<Rightarrow> 'm \<Rightarrow> audio_data \<Rightarrow> json \<Rightarrow> (string + transcription) \<times> 'w"
  time_time :: "'w \<Rightarrow> rat \<times> 'w"

text \<open>Formatting a value inside an f-string: a \<open>str\<close> is inserted as it is.\<close>

definition py_str :: "('m, 'w) env \<Rightarrow> json \<Rightarrow> string" where
  "py_str env v = (case v of JStr s \<Rightarrow> s | _ \<Rightarrow> py_repr env v)"

text \<open>
  \<open>os.path.exists\<close>: on a \<open>str\<close> it answers with a boolean and never raises
  (\<open>OSError\<close> and \<open>ValueError\<close> of the underlying \<open>stat\<close> are turned
  into \<open>False\<close>); on any other value the outcome, possibly a \<open>TypeError\<close>, is
  left to the environment.
\<close>

definition os_path_exists :: "('m, 'w) env \<Rightarrow> 'w \<Rightarrow> json \<Rightarrow> (string + bool) \<times> 'w" where
  "os_path_exists env w p =
     (case p of
        JStr s \<Rightarrow> (case fs_exists env w s of (b, w1) \<Rightarrow> (Inr b, w1))
      | _ \<Rightarrow> stat_other env w p)"

section \<open>Server state\<close>

record 'm FasterWhisperServer =
  model :: "'m option"
  model_size :: json

text \<open>\<open>__init__\<close>: both fields are \<open>None\<close>.\<close>

definition init :: "'m FasterWhisperServer" where
  "init = \<lparr>model = None, model_size = JNull\<rparr>"

section \<open>Loading a model\<close>

text \<open>
  \<open>load_model\<close>: the compute type is resolved first, from the device as it was
  passed; then the device is resolved; then the model is constructed.  Any exception
  in between becomes a failure payload and leaves the state untouched, because both
  assignments to \<open>self\<close> come after the constructor has returned.
\<close>

definition load_model ::
  "('m, 'w) env \<Rightarrow> 'w \<Rightarrow> 'm FasterWhisperServer \<Rightarrow> json \<Rightarrow> json \<Rightarrow> json
     \<Rightarrow> json \<times> 'm FasterWhisperServer \<times> 'w" where
  "load_model env w self msize device compute_type =
     (let compute_type =
            (if compute_type = JStr ''auto''
             then (if device = JStr ''cuda'' then JStr ''float16'' else JStr ''int8'')
             else compute_type);
          (resolved, w1) =
            (if device = JStr ''auto''
             then (case torch_probe env w of
                     (Cuda_available b, w') \<Rightarrow> (Inr (JStr (if b then ''cuda'' else ''cpu'')), w')
                   | (Import_error, w') \<Rightarrow> (Inr (JStr ''cpu''), w')
                   | (Probe_raised e, w') \<Rightarrow> (Inl e, w'))
             else (Inr device, w))
      in case resolved of
           Inl e \<Rightarrow> (failure e, self, w1)
         | Inr device \<Rightarrow>
             (case WhisperModel env w1 msize device compute_type of
                (Inl e, w2) \<Rightarrow> (failure e, self, w2)
              | (Inr m, w2) \<Rightarrow>
                  (JObj [(''success'', JBool True), (''model'', msize),
                         (''device'', device), (''compute_type'', compute_type)],
                   self\<lparr>model := Some m, model_size := msize\<rparr>, w2)))"

section \<open>Numbers as Python and numpy compute them\<close>

text \<open>
  \<open>16000 / sample_rate\<close> and \<open>len(audio) * ratio\<close> are binary64 operations: the
  exact result is rounded to the nearest number with a 53-bit significand, ties to
  the even significand.  \<open>binade x\<close> is the exponent \<open>e\<close> with
  \<open>2 ^ e \<le> x < 2 ^ (e + 1)\<close> for positive \<open>x\<close>.  Overflow and subnormal
  numbers are out of reach of the operands met here (a rate below \<open>2 ^ 32\<close>, a
  length below \<open>2 ^ 32\<close>) and are not modelled.
\<close>

definition pow2 :: "int \<Rightarrow> rat" where
  "pow2 e = (if 0 \<le> e then 2 ^ nat e else 1 / 2 ^ nat (- e))"

definition round_half_even :: "rat \<Rightarrow> int" where
  "round_half_even x =
     (let n = \<lfloor>x\<rfloor>; d = x - of_int n
      in if d < 1 / 2 then n else if 1 / 2 < d then n + 1 else if even n then n else n + 1)"

definition binade :: "rat \<Rightarrow> int" where
  "binade x = (if 1 \<le> x then bitlen \<lfloor>x\<rfloor> - 1 else - bitlen (\<lceil>1 / x\<rceil> - 1))"

definition fl64 :: "rat \<Rightarrow> rat" where
  "fl64 x =
     (if x = 0 then 0
      else let e = binade \<bar>x\<bar>
           in sgn x * of_int (round_half_even (\<bar>x\<bar> * pow2 (52 - e))) * pow2 (e - 52))"

text \<open>
  Sample amplitudes are exact rationals: the roundings of the float32 and float64
  arithmetic on amplitudes and on interpolation positions are not modelled.
\<close>

text \<open>\<open>str(n)\<close> for a natural number.\<close>

fun string_of_nat :: "nat \<Rightarrow> string" where
  "string_of_nat n =
     (if n < 10 then [''0123456789'' ! n]
      else string_of_nat (n div 10) @ [''0123456789'' ! (n mod 10)])"

text \<open>
  \<open>np.frombuffer(raw_data, dtype)\<close> for the little-endian signed types of 2 and 4
  bytes: the buffer must hold a whole number of elements.
\<close>

definition signed_of :: "nat \<Rightarrow> int \<Rightarrow> int" where
  "signed_of bits u = (if u < 2 ^ (bits - 1) then u else u - 2 ^ bits)"

fun int16_le :: "8 word list \<Rightarrow> int list" where
  "int16_le (b0 # b1 # bs) = signed_of 16 (uint b0 + 256 * uint b1) # int16_le bs"
| "int16_le bs = []"

fun int32_le :: "8 word list \<Rightarrow> int list" where
  "int32_le (b0 # b1 # b2 # b3 # bs) =
     signed_of 32 (uint b0 + 256 * uint b1 + 65536 * uint b2 + 16777216 * uint b3) # int32_le bs"
| "int32_le bs = []"

definition frombuffer :: "nat \<Rightarrow> 8 word list \<Rightarrow> exn + int list" where
  "frombuffer width raw =
     (if length raw mod width \<noteq> 0
      then Inl (ValueError ''buffer size must be a multiple of element size'')
      else Inr (if width = 2 then int16_le raw else int32_le raw))"

text \<open>\<open>audio.reshape(-1, n_channels).mean(axis=1)\<close>.\<close>

definition reshape_mean :: "nat \<Rightarrow> rat list \<Rightarrow> exn + rat list" where
  "reshape_mean n audio =
     (if length audio mod n \<noteq> 0 then Inl (ValueError ''cannot reshape array'')
      else Inr (map (\<lambda>i. sum_list (take n (drop (i * n) audio)) / of_nat n)
                  [0..<length audio div n]))"

text \<open>\<open>np.linspace(start, stop, num)\<close> with integer end points.\<close>

definition np_linspace :: "int \<Rightarrow> int \<Rightarrow> nat \<Rightarrow> rat list" where
  "np_linspace start stop num =
     (if num = 1 then [of_int start]
      else map (\<lambda>i. of_int start + of_nat i * (of_int (stop - start) / of_nat (num - 1)))
             [0..<num])"

text \<open>
  \<open>np.interp(x, np.arange(len(fp)), fp)\<close>: piecewise linear through the points
  \<open>(j, fp[j])\<close>, constant outside; an empty \<open>fp\<close> raises \<open>ValueError\<close>.
\<close>

definition interp_at :: "rat list \<Rightarrow> rat \<Rightarrow> rat" where
  "interp_at fp x =
     (if x \<le> 0 then fp ! 0
      else if of_nat (length fp - 1) \<le> x then fp ! (length fp - 1)
      else let j = nat \<lfloor>x\<rfloor> in fp ! j + (x - of_nat j) * (fp ! (j + 1) - fp ! j))"

definition np_interp :: "rat list \<Rightarrow> rat list \<Rightarrow> exn + rat list" where
  "np_interp xs fp =
     (if fp = [] then Inl (ValueError ''array of sample points is empty'')
      else Inr (map (interp_at fp) xs))"

section \<open>The audio loader\<close>

text \<open>Lines 144 to 149: resampling to 16 kHz.\<close>

definition new_length :: "nat \<Rightarrow> nat \<Rightarrow> nat" where
  "new_length len sample_rate =
     nat \<lfloor>fl64 (of_nat len * fl64 (16000 / of_nat sample_rate))\<rfloor>"

definition resample :: "nat \<Rightarrow> rat list \<Rightarrow> exn + rat list" where
  "resample sample_rate audio =
     (if sample_rate = 0 then Inl ZeroDivisionError
      else np_interp
             (np_linspace 0 (int (length audio) - 1) (new_length (length audio) sample_rate))
             audio)"

text \<open>
  The body of the \<open>with\<close> block of \<open>_load_audio\<close>, on the header fields and frames
  of the opened file: conversion, downmix, resampling.
\<close>

definition wav_to_buffer :: "wav \<Rightarrow> exn + rat list" where
  "wav_to_buffer wavf =
     (case (if sampwidth wavf = 2
            then map_sum id (map (\<lambda>s. of_int s / 32768)) (frombuffer 2 (raw_data wavf))
            else if sampwidth wavf = 4
            then map_sum id (map (\<lambda>s. of_int s / 2147483648)) (frombuffer 4 (raw_data wavf))
            else Inl (ValueError (''Unsupported sample width: '' @ string_of_nat (sampwidth wavf))))
      of Inl e \<Rightarrow> Inl e
       | Inr audio \<Rightarrow>
           (case (if nchannels wavf > 1 then reshape_mean (nchannels wavf) audio else Inr audio)
            of Inl e \<Rightarrow> Inl e
             | Inr audio \<Rightarrow>
                 if framerate wavf \<noteq> 16000 then resample (framerate wavf) audio else Inr audio))"

text \<open>
  \<open>_load_audio\<close>: whatever is raised while opening, reading or converting is caught
  and the path is returned in place of a buffer.
\<close>

definition load_audio :: "('m, 'w) env \<Rightarrow> 'w \<Rightarrow> json \<Rightarrow> audio_data \<times> 'w" where
  "load_audio env w audio_path =
     (case wave_open env w audio_path of
        (Inl e, w1) \<Rightarrow> (Path audio_path, w1)
      | (Inr wavf, w1) \<Rightarrow>
          (case wav_to_buffer wavf of
             Inl e \<Rightarrow> (Path audio_path, w1)
           | Inr audio \<Rightarrow> (Buffer audio, w1)))"

section \<open>Transcribing\<close>

text \<open>
  \<open>str.strip()\<close>: white space is removed at both ends.  Characters are code
  points below 256; these are the ones Python counts as white space there.
\<close>

definition is_space :: "char \<Rightarrow> bool" where
  "is_space c =
     (let n = (of_char c :: nat)
      in (9 \<le> n \<and> n \<le> 13) \<or> (28 \<le> n \<and> n \<le> 32) \<or> n = 133 \<or> n = 160)"

definition strip :: "string \<Rightarrow> string" where
  "strip s = rev (dropWhile is_space (rev (dropWhile is_space s)))"

text \<open>\<open>round(x, 3)\<close>.\<close>

definition round3 :: "rat \<Rightarrow> rat" where
  "round3 x = of_int (round_half_even (x * 1000)) / 1000"

text \<open>
  \<open>transcribe\<close>.  The two precondition checks come before the \<open>try\<close>: an
  exception of \<open>os.path.exists\<close> leaves the method (\<open>Inl\<close>), everything
  raised later is turned into a failure payload.  The method assigns nothing to
  \<open>self\<close>.
\<close>

definition transcribe ::
  "('m, 'w) env \<Rightarrow> 'w \<Rightarrow> 'm FasterWhisperServer \<Rightarrow> json \<Rightarrow> json \<Rightarrow> (exn + json) \<times> 'w" where
  "transcribe env w self audio_path language =
     (case model self of
        None \<Rightarrow> (Inr (failure ''Model not loaded''), w)
      | Some m \<Rightarrow>
          (case os_path_exists env w audio_path of
             (Inl e, w1) \<Rightarrow> (Inl (Raised e), w1)
           | (Inr False, w1) \<Rightarrow>
               (Inr (failure (''Audio file not found: '' @ py_str env audio_path)), w1)
           | (Inr True, w1) \<Rightarrow>
               (case time_time env w1 of (start_time, w2) \<Rightarrow>
                (case load_audio env w2 audio_path of (audio_data, w3) \<Rightarrow>
                 (case model_transcribe env w3 m audio_data language of
                    (Inl e, w4) \<Rightarrow> (Inr (failure e), w4)
                  | (Inr t, w4) \<Rightarrow>
                      (case time_time env w4 of (end_time, w5) \<Rightarrow>
                         (Inr (JObj
                            [(''success'', JBool True),
                             (''text'', JStr (strip (concat (segment_texts t)))),
                             (''duration'', JFloat (round3 (end_time - start_time))),
                             (''language'', JStr (info_language t)),
                             (''language_probability'',
                                JFloat (round3 (info_language_probability t)))]),
                          w5)))))))"

section \<open>The command loop\<close>

text \<open>How one pass through the body of the \<open>for\<close> loop ends.\<close>

datatype control = Continue | Break | Uncaught exn

text \<open>
  The body of the loop of \<open>run\<close> on one line of input: the responses printed, the
  state and the world afterwards, and how the pass ends.  \<open>request.get\<close> exists
  only on a dict: for any other parsed value the attribute lookup raises, outside
  every \<open>try\<close>.
\<close>

definition process_line ::
  "('m, 'w) env \<Rightarrow> 'w \<Rightarrow> 'm FasterWhisperServer \<Rightarrow> string
     \<Rightarrow> json list \<times> 'm FasterWhisperServer \<times> 'w \<times> control" where
  "process_line env w self raw_line =
     (let line = strip raw_line
      in if line = [] then ([], self, w, Continue)
         else
           (case json_loads env line of
              Inl e \<Rightarrow> ([failure (''Invalid JSON: '' @ e)], self, w, Continue)
            | Inr (JObj request) \<Rightarrow>
                (let command = dict_get request ''command'' (JStr [])
                 in if command = JStr ''ping''
                    then ([JObj [(''success'', JBool True), (''pong'', JBool True),
                                 (''model'', model_size self)]], self, w, Continue)
                    else if command = JStr ''load''
                    then (case load_model env w self
                                 (dict_get request ''model_size'' (JStr ''base''))
                                 (dict_get request ''device'' (JStr ''auto''))
                                 (dict_get request ''compute_type'' (JStr ''auto''))
                          of (result, self', w') \<Rightarrow> ([result], self', w', Continue))
                    else if command = JStr ''transcribe''
                    then (case transcribe env w self
                                 (dict_get request ''audio_path'' (JStr []))
                                 (dict_get request ''language'' JNull)
                          of (Inl e, w') \<Rightarrow> ([], self, w', Uncaught e)
                           | (Inr result, w') \<Rightarrow> ([result], self, w', Continue))
                    else if command = JStr ''quit''
                    then ([JObj [(''success'', JBool True), (''goodbye'', JBool True)]],
                          self, w, Break)
                    else ([failure (''Unknown command: '' @ py_str env command)],
                          self, w, Continue))
            | Inr _ \<Rightarrow> ([], self, w, Uncaught AttributeError)))"

text \<open>How the process ends, and what a run leaves behind.\<close>

datatype exit = End_of_input | Quit | Crashed exn

record ('m, 'w) outcome =
  printed :: "json list"
  final :: "'m FasterWhisperServer"
  world :: "'w"
  unread :: "string list"
  ended :: exit

text \<open>
  The \<open>for\<close> loop over the lines of standard input: a line is read only after the
  body has finished with the one before; \<open>break\<close> and an uncaught exception leave
  the remaining lines unread.
\<close>

fun command_loop ::
  "('m, 'w) env \<Rightarrow> 'w \<Rightarrow> 'm FasterWhisperServer \<Rightarrow> string list \<Rightarrow> ('m, 'w) outcome" where
  "command_loop env w self [] =
     \<lparr>printed = [], final = self, world = w, unread = [], ended = End_of_input\<rparr>"
| "command_loop env w self (l # ls) =
     (case process_line env w self l of
        (out, self', w', Continue) \<Rightarrow>
          (let r = command_loop env w' self' ls in r\<lparr>printed := out @ printed r\<rparr>)
      | (out, self', w', Break) \<Rightarrow>
          \<lparr>printed = out, final = self', world = w', unread = ls, ended = Quit\<rparr>
      | (out, self', w', Uncaught e) \<Rightarrow>
          \<lparr>printed = out, final = self', world = w', unread = ls, ended = Crashed e\<rparr>)"

text \<open>\<open>run\<close>: the banner, then the loop.\<close>

definition banner :: json where
  "banner = JObj [(''ready'', JBool True), (''version'', JStr ''1.0'')]"

definition run ::
  "('m, 'w) env \<Rightarrow> 'w \<Rightarrow> 'm FasterWhisperServer \<Rightarrow> string list \<Rightarrow> ('m, 'w) outcome" where
  "run env w self input =
     (let r = command_loop env w self input in r\<lparr>printed := banner # printed r\<rparr>)"

section \<open>A concrete machine\<close>

text \<open>
  An environment to run the definitions on: a machine with a GPU, an engine that
  knows every model size but \<open>huge\<close> and transcribes whatever it is given, a
  clock that advances by one second per reading, five audio files and a text file
  \<open>notes.txt\<close> that is no WAV container.  The parser
  is a table of the request lines used below, each with the value \<open>json.loads\<close>
  gives for it.
\<close>

definition wav_mono16k :: wav where
  "wav_mono16k = \<lparr>framerate = 16000, nchannels = 1, sampwidth = 2, nframes = 3,
     raw_data = [0x00, 0x40, 0x00, 0xC0, 0xFF, 0x7F]\<rparr>"

definition wav_stereo16k :: wav where
  "wav_stereo16k = \<lparr>framerate = 16000, nchannels = 2, sampwidth = 2, nframes = 3,
     raw_data = [0x00, 0x40, 0x00, 0x40, 0x00, 0xC0, 0x00, 0xC0, 0xFF, 0x7F, 0xFF, 0x7F]\<rparr>"

definition wav_mono8k :: wav where
  "wav_mono8k = \<lparr>framerate = 8000, nchannels = 1, sampwidth = 2, nframes = 3,
     raw_data = [0x00, 0x40, 0x00, 0xC0, 0x00, 0x20]\<rparr>"

definition wav_empty8k :: wav where
  "wav_empty8k = \<lparr>framerate = 8000, nchannels = 1, sampwidth = 2, nframes = 0,
     raw_data = []\<rparr>"

definition wav_u8 :: wav where
  "wav_u8 = \<lparr>framerate = 16000, nchannels = 1, sampwidth = 1, nframes = 2,
     raw_data = [0x80, 0x90]\<rparr>"

definition demo_loads :: "string \<Rightarrow> string + json" where
  \<open>demo_loads s =
     (if s = ''42'' then Inr (JInt 42)
      else if s = ''{"command": "ping"}'' then Inr (JObj [(''command'', JStr ''ping'')])
      else if s = ''{"command": "quit"}'' then Inr (JObj [(''command'', JStr ''quit'')])
      else if s = ''{"command": "load"}'' then Inr (JObj [(''command'', JStr ''load'')])
      else if s = ''{"command": "load", "model_size": "huge"}''
      then Inr (JObj [(''command'', JStr ''load''), (''model_size'', JStr ''huge'')])
      else if s = ''{"command": "transcribe", "audio_path": "u8.wav"}''
      then Inr (JObj [(''command'', JStr ''transcribe''), (''audio_path'', JStr ''u8.wav'')])
      else Inl ''Expecting value: line 1 column 1 (char 0)'')\<close>

definition demo_files :: "string \<Rightarrow> wav option" where
  "demo_files p =
     (if p = ''mono16k.wav'' then Some wav_mono16k
      else if p = ''stereo16k.wav'' then Some wav_stereo16k
      else if p = ''mono8k.wav'' then Some wav_mono8k
      else if p = ''empty8k.wav'' then Some wav_empty8k
      else if p = ''u8.wav'' then Some wav_u8
      else None)"

definition demo_env :: "(json, nat) env" where
  "demo_env =
     \<lparr>json_loads = demo_loads,
      py_repr = (\<lambda>v. ''None''),
      torch_probe = (\<lambda>w. (Cuda_available True, w)),
      WhisperModel = (\<lambda>w msize device compute_type.
         if msize = JStr ''huge'' then (Inl ''Invalid model size'', w) else (Inr msize, w)),
      fs_exists = (\<lambda>w p. (p = ''notes.txt'' \<or> demo_files p \<noteq> None, w)),
      stat_other = (\<lambda>w v. (Inl ''stat: path should be string, bytes, os.PathLike or integer'', w)),
      wave_open = (\<lambda>w v.
         case v of
           JStr p \<Rightarrow> (case demo_files p of
                        None \<Rightarrow> (Inl ''file does not start with RIFF id'', w)
                      | Some wavf \<Rightarrow> (Inr wavf, w))
         | _ \<Rightarrow> (Inl ''file does not start with RIFF id'', w)),
      model_transcribe = (\<lambda>w m a language.
         (Inr \<lparr>segment_texts = ['' hello'', '' world''], info_language = ''en'',
               info_language_probability = 99 / 100\<rparr>, w)),
      time_time = (\<lambda>w. (of_nat w, Suc w))\<rparr>"

text \<open>The state after \<open>base\<close> has been loaded.\<close>

definition loaded_base :: "json FasterWhisperServer" where
  "loaded_base = \<lparr>model = Some (JStr ''base''), model_size = JStr ''base''\<rparr>"

text \<open>Lines as they arrive on standard input, with their line feed.\<close>

definition ping_line :: string where
  \<open>ping_line = ''{"command": "ping"}'' @ [CHR 0x0A]\<close>

definition quit_line :: string where
  \<open>quit_line = ''{"command": "quit"}'' @ [CHR 0x0A]\<close>

definition load_line :: string where
  \<open>load_line = ''{"command": "load"}'' @ [CHR 0x0A]\<close>

definition load_huge_line :: string where
  \<open>load_huge_line = ''{"command": "load", "model_size": "huge"}'' @ [CHR 0x0A]\<close>

definition transcribe_u8_line :: string where
  \<open>transcribe_u8_line = ''{"command": "transcribe", "audio_path": "u8.wav"}'' @ [CHR 0x0A]\<close>

definition number_line :: string where
  "number_line = ''42'' @ [CHR 0x0A]"

definition blank_line :: string where
  "blank_line = ''  '' @ [CHR 0x0A]"

section \<open>Synthetic PCM data\<close>


section \<open>Properties of the command loop and of the adapter\<close>

subsection \<open>Evaluating the concrete requests\<close>

lemma strip_ping_line: \<open>strip ping_line = ''{"command": "ping"}''\<close>
  by (simp add: ping_line_def strip_def is_space_def)

lemma strip_quit_line: \<open>strip quit_line = ''{"command": "quit"}''\<close>
  by (simp add: quit_line_def strip_def is_space_def)

lemma strip_transcribe_u8_line:
  \<open>strip transcribe_u8_line = ''{"command": "transcribe", "audio_path": "u8.wav"}''\<close>
  by (simp add: transcribe_u8_line_def strip_def is_space_def)


lemma strip_blank_line: "strip blank_line = []"
  by (simp add: blank_line_def strip_def is_space_def)

lemma loads_ping_line:
  "json_loads demo_env (strip ping_line) = Inr (JObj [(''command'', JStr ''ping'')])"
  unfolding strip_ping_line by (simp add: demo_env_def demo_loads_def)

lemma loads_quit_line:
  "json_loads demo_env (strip quit_line) = Inr (JObj [(''command'', JStr ''quit'')])"
  unfolding strip_quit_line by (simp add: demo_env_def demo_loads_def)

lemma loads_transcribe_u8_line:
  "json_loads demo_env (strip transcribe_u8_line) =
     Inr (JObj [(''command'', JStr ''transcribe''), (''audio_path'', JStr ''u8.wav'')])"
  unfolding strip_transcribe_u8_line by (simp add: demo_env_def demo_loads_def)



lemma transcribe_u8_loaded:
  "transcribe demo_env 0 loaded_base (JStr ''u8.wav'') JNull =
     (Inr (JObj [(''success'', JBool True), (''text'', JStr ''hello world''),
                 (''duration'', JFloat 1), (''language'', JStr ''en''),
                 (''language_probability'', JFloat (99 / 100))]), 2)"
  by (simp add: transcribe_def loaded_base_def demo_env_def os_path_exists_def demo_files_def
        load_audio_def wav_u8_def wav_to_buffer_def strip_def is_space_def round3_def
        round_half_even_def)

subsection \<open>The body of the loop, command by command\<close>


lemma process_line_ping:
  assumes "strip l \<noteq> []" and "json_loads env (strip l) = Inr (JObj request)"
    and "dict_get request ''command'' (JStr []) = JStr ''ping''"
  shows "process_line env w self l =
           ([JObj [(''success'', JBool True), (''pong'', JBool True),
                   (''model'', model_size self)]], self, w, Continue)"
  using assms by (simp add: process_line_def Let_def)

lemma process_line_quit:
  assumes "strip q \<noteq> []" and "json_loads env (strip q) = Inr (JObj request)"
    and "dict_get request ''command'' (JStr []) = JStr ''quit''"
  shows "process_line env w self q =
           ([JObj [(''success'', JBool True), (''goodbye'', JBool True)]], self, w, Break)"
  using assms by (simp add: process_line_def Let_def)



lemma process_line_state:
  assumes "process_line env w self l = (out, self', w', c)"
    and "\<And>request. json_loads env (strip l) = Inr (JObj request) \<Longrightarrow>
           dict_get request ''command'' (JStr []) \<noteq> JStr ''load''"
  shows "self' = self"
proof (cases "strip l = []")
  case True
  with assms(1) show ?thesis by (simp add: process_line_def)
next
  case False
  show ?thesis
  proof (cases "json_loads env (strip l)")
    case (Inl e)
    with False assms(1) show ?thesis by (simp add: process_line_def)
  next
    case (Inr v)
    show ?thesis
    proof (cases v)
      case (JObj request)
      with Inr assms(2) have "dict_get request ''command'' (JStr []) \<noteq> JStr ''load''"
        by simp
      with False Inr JObj assms(1) show ?thesis
        by (auto simp: process_line_def Let_def split: if_splits prod.splits sum.splits)
    qed (use False Inr assms(1) in \<open>simp_all add: process_line_def\<close>)
  qed
qed

text \<open>A prefix of the input that the loop gets through is processed on its own.\<close>

lemma command_loop_append:
  assumes "ended (command_loop env w self pre) = End_of_input"
  shows "command_loop env w self (pre @ rest) =
           (let a = command_loop env w self pre;
                b = command_loop env (world a) (final a) rest
            in b\<lparr>printed := printed a @ printed b\<rparr>)"
  using assms
proof (induction pre arbitrary: w self)
  case Nil
  then show ?case by simp
next
  case (Cons l ls)
  obtain out self' w' c where pl: "process_line env w self l = (out, self', w', c)"
    by (cases "process_line env w self l") auto
  show ?case
  proof (cases c)
    case Continue
    with pl Cons.prems have "ended (command_loop env w' self' ls) = End_of_input"
      by (simp add: Let_def)
    from Cons.IH [OF this] pl Continue show ?thesis
      by (simp add: Let_def)
  next
    case Break
    with pl Cons.prems show ?thesis by simp
  next
    case (Uncaught e)
    with pl Cons.prems show ?thesis by simp
  qed
qed

subsection \<open>One response per request line\<close>




subsection \<open>Quit\<close>

text \<open>
  C9: when the loop has got through the lines \<open>pre\<close> and then reads a line whose
  command is \<open>quit\<close>, it prints the goodbye response, exactly once, and ends.  The
  lines \<open>rest\<close> behind it stay unread: the responses, the state and the world are
  those reached after \<open>pre\<close>, whatever \<open>rest\<close> holds.
\<close>

theorem quit_ends_the_loop:
  assumes "ended (command_loop env w self pre) = End_of_input"
    and "strip q \<noteq> []"
    and "json_loads env (strip q) = Inr (JObj request)"
    and "dict_get request ''command'' (JStr []) = JStr ''quit''"
  shows "run env w self (pre @ q # rest) =
           \<lparr>printed = banner # printed (command_loop env w self pre) @
                        [JObj [(''success'', JBool True), (''goodbye'', JBool True)]],
            final = final (command_loop env w self pre),
            world = world (command_loop env w self pre),
            unread = rest,
            ended = Quit\<rparr>"
  by (simp add: run_def Let_def command_loop_append [OF assms(1)]
        process_line_quit [OF assms(2,3,4)])

theorem quit_ends_the_loop_witness:
  "run demo_env 0 init ([ping_line] @ quit_line # [ping_line, number_line]) =
     \<lparr>printed = [banner,
                 JObj [(''success'', JBool True), (''pong'', JBool True), (''model'', JNull)],
                 JObj [(''success'', JBool True), (''goodbye'', JBool True)]],
      final = init, world = 0, unread = [ping_line, number_line], ended = Quit\<rparr>"
proof -
  have hp: "strip ping_line \<noteq> []"
    by (simp add: strip_ping_line)
  have hd: "dict_get [(''command'', JStr ''ping'')] ''command'' (JStr []) = JStr ''ping''"
    by (simp add: dict_get_def)
  have ping: "process_line demo_env 0 init ping_line =
      ([JObj [(''success'', JBool True), (''pong'', JBool True), (''model'', JNull)]],
       init, 0, Continue)"
    using process_line_ping [OF hp loads_ping_line hd, of 0 init]
    by (simp add: init_def)
  have h1: "ended (command_loop demo_env 0 init [ping_line]) = End_of_input"
    by (simp add: ping)
  have h2: "strip quit_line \<noteq> []"
    by (simp add: strip_quit_line)
  have h4: "dict_get [(''command'', JStr ''quit'')] ''command'' (JStr []) = JStr ''quit''"
    by (simp add: dict_get_def)
  show ?thesis
    using quit_ends_the_loop [OF h1 h2 loads_quit_line h4, of "[ping_line, number_line]"]
    by (simp add: ping)
qed

subsection \<open>The state changes on load only\<close>

text \<open>
  C8: as long as no line of the input is a \<open>load\<close> request, the model handle and
  the model identifier at the end of the run are the ones it started with.  This
  covers \<open>ping\<close>, \<open>transcribe\<close> (with its precondition failures), \<open>quit\<close>,
  unknown commands, blank lines and lines that are not requests at all.
\<close>

theorem state_changes_only_on_load:
  assumes "\<forall>l \<in> set input. \<forall>request. json_loads env (strip l) = Inr (JObj request) \<longrightarrow>
             dict_get request ''command'' (JStr []) \<noteq> JStr ''load''"
  shows "model (final (run env w self input)) = model self \<and>
         model_size (final (run env w self input)) = model_size self"
proof -
  have "final (command_loop env w self input) = self"
    using assms
  proof (induction input arbitrary: w self)
    case Nil
    then show ?case by simp
  next
    case (Cons l ls)
    obtain out self' w' c where pl: "process_line env w self l = (out, self', w', c)"
      by (cases "process_line env w self l") auto
    have same: "self' = self"
      using Cons.prems by (intro process_line_state [OF pl]) simp
    have rest: "final (command_loop env w' self ls) = self"
      using Cons.prems by (intro Cons.IH) simp
    show ?case
      using pl same rest by (cases c) (simp_all add: Let_def)
  qed
  then show ?thesis by (simp add: run_def Let_def)
qed

theorem state_changes_only_on_load_witness:
  "model (final (run demo_env 0 loaded_base [ping_line, transcribe_u8_line, blank_line, quit_line]))
     = Some (JStr ''base'') \<and>
   model_size (final (run demo_env 0 loaded_base
     [ping_line, transcribe_u8_line, blank_line, quit_line])) = JStr ''base''"
proof -
  have p: "\<forall>request. json_loads demo_env (strip ping_line) = Inr (JObj request) \<longrightarrow>
             dict_get request ''command'' (JStr []) \<noteq> JStr ''load''"
    unfolding loads_ping_line by (auto simp: dict_get_def)
  have t: "\<forall>request. json_loads demo_env (strip transcribe_u8_line) = Inr (JObj request) \<longrightarrow>
             dict_get request ''command'' (JStr []) \<noteq> JStr ''load''"
    unfolding loads_transcribe_u8_line by (auto simp: dict_get_def)
  have b: "\<forall>request. json_loads demo_env (strip blank_line) = Inr (JObj request) \<longrightarrow>
             dict_get request ''command'' (JStr []) \<noteq> JStr ''load''"
    unfolding strip_blank_line by (simp add: demo_env_def demo_loads_def)
  have q: "\<forall>request. json_loads demo_env (strip quit_line) = Inr (JObj request) \<longrightarrow>
             dict_get request ''command'' (JStr []) \<noteq> JStr ''load''"
    unfolding loads_quit_line by (auto simp: dict_get_def)
  from p t b q have
    "\<forall>l \<in> set [ping_line, transcribe_u8_line, blank_line, quit_line].
       \<forall>request. json_loads demo_env (strip l) = Inr (JObj request) \<longrightarrow>
          dict_get request ''command'' (JStr []) \<noteq> JStr ''load''"
    by simp
  from state_changes_only_on_load [OF this, of 0 loaded_base] show ?thesis
    by (simp add: loaded_base_def)
qed

subsection \<open>Transcribing before a model is loaded\<close>

text \<open>
  C4: with no model loaded, \<open>transcribe\<close> answers with the failure payload whose
  error is \<open>Model not loaded\<close>, for every audio path and language.  The answer is
  the same in every environment and the world comes back as it was: nothing is
  loaded and neither the file system nor the engine is consulted.
\<close>

theorem transcribe_model_not_loaded:
  assumes "model self = None"
  shows "transcribe env w self audio_path language =
           (Inr (JObj [(''success'', JBool False), (''error'', JStr ''Model not loaded'')]), w)"
  using assms by (simp add: transcribe_def failure_def)

theorem transcribe_model_not_loaded_witness:
  "model (init :: json FasterWhisperServer) = None \<and>
   transcribe demo_env 0 init (JStr ''u8.wav'') (JStr ''en'') =
     (Inr (JObj [(''success'', JBool False), (''error'', JStr ''Model not loaded'')]), 0)"
proof -
  have h: "model (init :: json FasterWhisperServer) = None"
    by (simp add: init_def)
  from h transcribe_model_not_loaded [OF h, of demo_env 0 "JStr ''u8.wav''" "JStr ''en''"]
  show ?thesis by simp
qed

subsection \<open>A failed load\<close>



subsection \<open>Resolution of the compute type\<close>

text \<open>
  With the device given as \<open>cuda\<close> or \<open>cpu\<close>, \<open>compute_type = "auto"\<close> becomes
  \<open>float16\<close> or \<open>int8\<close>.  With \<open>device = "auto"\<close> the compute type has been
  chosen before the probe runs, so it is \<open>int8\<close> on every machine.
\<close>

lemma load_model_explicit_device:
  assumes "device \<noteq> JStr ''auto''"
    and "WhisperModel env w msize device
           (if device = JStr ''cuda'' then JStr ''float16'' else JStr ''int8'') = (Inr m, w')"
  shows "load_model env w self msize device (JStr ''auto'') =
           (JObj [(''success'', JBool True), (''model'', msize), (''device'', device),
                  (''compute_type'',
                     if device = JStr ''cuda'' then JStr ''float16'' else JStr ''int8'')],
            self\<lparr>model := Some m, model_size := msize\<rparr>, w')"
  using assms by (simp add: load_model_def Let_def)

lemma load_model_auto_device:
  assumes "torch_probe env w = (Cuda_available b, w1)"
    and "WhisperModel env w1 msize (JStr (if b then ''cuda'' else ''cpu'')) (JStr ''int8'')
           = (Inr m, w')"
  shows "load_model env w self msize (JStr ''auto'') (JStr ''auto'') =
           (JObj [(''success'', JBool True), (''model'', msize),
                  (''device'', JStr (if b then ''cuda'' else ''cpu'')),
                  (''compute_type'', JStr ''int8'')],
            self\<lparr>model := Some m, model_size := msize\<rparr>, w')"
  using assms by (simp add: load_model_def Let_def)

text \<open>
  C2 at a concrete request: on a machine whose probe finds a GPU, a load with
  \<open>device = "auto"\<close> and \<open>compute_type = "auto"\<close> succeeds with device
  \<open>cuda\<close> and compute type \<open>int8\<close>, where the claim has \<open>float16\<close>.
\<close>

theorem load_auto_on_gpu_gives_int8:
  "torch_probe demo_env 0 = (Cuda_available True, 0) \<and>
   load_model demo_env 0 init (JStr ''base'') (JStr ''auto'') (JStr ''auto'') =
     (JObj [(''success'', JBool True), (''model'', JStr ''base''),
            (''device'', JStr ''cuda''), (''compute_type'', JStr ''int8'')],
      loaded_base, 0)"
  by (simp add: load_model_def demo_env_def init_def loaded_base_def)

section \<open>Properties of the audio loader\<close>

subsection \<open>Falling back to the path\<close>

lemma unsupported_width_raises:
  assumes "sampwidth wavf \<noteq> 2" and "sampwidth wavf \<noteq> 4"
  shows "wav_to_buffer wavf =
           Inl (ValueError (''Unsupported sample width: '' @ string_of_nat (sampwidth wavf)))"
  using assms by (simp add: wav_to_buffer_def)

lemma load_audio_total:
  "\<exists>a w1. load_audio env w p = (a, w1) \<and> (a = Path p \<or> (\<exists>audio. a = Buffer audio))"
  by (auto simp: load_audio_def split: prod.splits sum.splits)

text \<open>
  C7: when the file cannot be opened or read as a WAV container, or when the
  conversion of what was read raises, the loader returns the path it was given,
  unchanged.  It has no other outcome than a buffer or that path: nothing is raised
  to the caller.
\<close>

theorem load_audio_fallback:
  assumes "wave_open env w p = (r, w1)"
    and "(\<exists>e. r = Inl e) \<or> (\<exists>wavf e. r = Inr wavf \<and> wav_to_buffer wavf = Inl e)"
  shows "load_audio env w p = (Path p, w1)"
  using assms by (auto simp: load_audio_def)

theorem load_audio_fallback_witness:
  "wave_open demo_env 0 (JStr ''notes.txt'') = (Inl ''file does not start with RIFF id'', 0) \<and>
   load_audio demo_env 0 (JStr ''notes.txt'') = (Path (JStr ''notes.txt''), 0)"
proof -
  have h: "wave_open demo_env 0 (JStr ''notes.txt'') = (Inl ''file does not start with RIFF id'', 0)"
    by (simp add: demo_env_def demo_files_def)
  have "(\<exists>e. (Inl ''file does not start with RIFF id'' :: string + wav) = Inl e) \<or>
        (\<exists>wavf e. (Inl ''file does not start with RIFF id'' :: string + wav) = Inr wavf \<and>
           wav_to_buffer wavf = Inl e)"
    by simp
  from h load_audio_fallback [OF h this] show ?thesis
    by simp
qed

subsection \<open>An unsupported sample width\<close>

text \<open>
  C3, as stated, fails: for an existing 8-bit file and a loaded model, the
  \<open>ValueError\<close> of the unsupported width is caught inside the loader, the engine
  is given the path, and the caller gets the engine's success payload.  No failure
  response is produced and the message \<open>Unsupported sample width: 1\<close> appears
  nowhere.
\<close>

theorem unsupported_width_is_not_reported:
  "sampwidth wav_u8 = 1 \<and>
   fs_exists demo_env 0 ''u8.wav'' = (True, 0) \<and>
   wave_open demo_env 1 (JStr ''u8.wav'') = (Inr wav_u8, 1) \<and>
   wav_to_buffer wav_u8 = Inl (ValueError ''Unsupported sample width: 1'') \<and>
   transcribe demo_env 0 loaded_base (JStr ''u8.wav'') JNull =
     (Inr (JObj [(''success'', JBool True), (''text'', JStr ''hello world''),
                 (''duration'', JFloat 1), (''language'', JStr ''en''),
                 (''language_probability'', JFloat (99 / 100))]), 2)"
  by (simp add: transcribe_u8_loaded)
     (simp add: wav_u8_def demo_env_def demo_files_def wav_to_buffer_def)

text \<open>
  C3, amended: for an existing file whose container has a sample width other than 2
  or 4 bytes, the loader returns the path in place of a buffer and \<open>transcribe\<close>
  answers with whatever the engine makes of that path: the success payload when the
  engine transcribes the file itself, a failure carrying the engine's message when
  the engine raises.
\<close>

theorem unsupported_width_falls_back:
  assumes "model self = Some m"
    and "fs_exists env w p = (True, w1)"
    and "time_time env w1 = (t0, w2)"
    and "wave_open env w2 (JStr p) = (Inr wavf, w3)"
    and "sampwidth wavf \<noteq> 2" and "sampwidth wavf \<noteq> 4"
  shows "load_audio env w2 (JStr p) = (Path (JStr p), w3) \<and>
         transcribe env w self (JStr p) language =
           (case model_transcribe env w3 m (Path (JStr p)) language of
              (Inl e, w4) \<Rightarrow> (Inr (failure e), w4)
            | (Inr t, w4) \<Rightarrow>
                (case time_time env w4 of (t1, w5) \<Rightarrow>
                   (Inr (JObj
                      [(''success'', JBool True),
                       (''text'', JStr (strip (concat (segment_texts t)))),
                       (''duration'', JFloat (round3 (t1 - t0))),
                       (''language'', JStr (info_language t)),
                       (''language_probability'',
                          JFloat (round3 (info_language_probability t)))]),
                    w5)))"
proof -
  have la: "load_audio env w2 (JStr p) = (Path (JStr p), w3)"
    using assms(4) unsupported_width_raises [OF assms(5,6)] by (simp add: load_audio_def)
  have ex: "os_path_exists env w (JStr p) = (Inr True, w1)"
    using assms(2) by (simp add: os_path_exists_def)
  show ?thesis
    using la by (simp add: transcribe_def assms(1,3) ex)
qed

theorem unsupported_width_falls_back_witness:
  "load_audio demo_env 1 (JStr ''u8.wav'') = (Path (JStr ''u8.wav''), 1) \<and>
   transcribe demo_env 0 loaded_base (JStr ''u8.wav'') (JStr ''en'') =
     (Inr (JObj [(''success'', JBool True), (''text'', JStr ''hello world''),
                 (''duration'', JFloat 1), (''language'', JStr ''en''),
                 (''language_probability'', JFloat (99 / 100))]), 2)"
proof -
  have h1: "model loaded_base = Some (JStr ''base'')"
    by (simp add: loaded_base_def)
  have h2: "fs_exists demo_env 0 ''u8.wav'' = (True, 0)"
    by (simp add: demo_env_def demo_files_def)
  have h3: "time_time demo_env 0 = (0, 1)"
    by (simp add: demo_env_def)
  have h4: "wave_open demo_env 1 (JStr ''u8.wav'') = (Inr wav_u8, 1)"
    by (simp add: demo_env_def demo_files_def)
  have h5: "sampwidth wav_u8 \<noteq> 2" and h6: "sampwidth wav_u8 \<noteq> 4"
    by (simp_all add: wav_u8_def)
  show ?thesis
    using unsupported_width_falls_back [OF h1 h2 h3 h4 h5 h6, of "JStr ''en''"]
    by (simp add: demo_env_def strip_def is_space_def round3_def round_half_even_def)
qed

subsection \<open>Rounding, and reading PCM bytes back\<close>











subsection \<open>Downmixing\<close>




subsection \<open>16-bit PCM: scaling and downmixing\<close>





subsection \<open>Resampling\<close>









end
